theory Spec2Isabelle
  imports Complex_Main "HOL-Library.AList"
begin

section \<open>Numbers, errors and dictionary reads\<close>

text \<open>
  Python floats are modelled as \<^typ>\<open>real\<close> (rounding, infinities and NaN are left out),
  Python ints as \<^typ>\<open>int\<close>, and a calendar date as its day number, an \<^typ>\<open>int\<close>,
  ordered as \<^verbatim>\<open>datetime.date\<close> is. An exception is a value of \<open>py_error\<close> on the left
  of a sum.
\<close>

datatype py_error = ZeroDivisionError

type_synonym date = int

text \<open>\<^verbatim>\<open>a / b\<close> on floats raises when the divisor is zero.\<close>

definition py_truediv :: "real \<Rightarrow> real \<Rightarrow> py_error + real" where
  "py_truediv a b = (if b = 0 then Inl ZeroDivisionError else Inr (a / b))"

text \<open>\<^verbatim>\<open>int(x)\<close> on a float truncates towards zero.\<close>

definition py_int :: "real \<Rightarrow> int" where
  "py_int x = (if 0 \<le> x then \<lfloor>x\<rfloor> else \<lceil>x\<rceil>)"

text \<open>\<^verbatim>\<open>d.get(key, default)\<close>: a key that is absent is \<open>None\<close>.\<close>

definition dict_get :: "'a option \<Rightarrow> 'a \<Rightarrow> 'a" where
  "dict_get v dflt = (case v of None \<Rightarrow> dflt | Some x \<Rightarrow> x)"

section \<open>config.py\<close>

record config =
  MAX_POSITION_SIZE :: real
  MIN_CONFIDENCE_THRESHOLD :: real
  MAX_DAILY_TRADES :: int
  MAX_OPEN_POSITIONS :: int
  RISK_LIMIT_PER_TRADE :: real
  MOCK_TRADING :: bool

text \<open>The values the program runs with when the environment sets none of them.\<close>

definition default_config :: config where
  "default_config =
     \<lparr>MAX_POSITION_SIZE = 100, MIN_CONFIDENCE_THRESHOLD = 7 / 10, MAX_DAILY_TRADES = 10,
      MAX_OPEN_POSITIONS = 20, RISK_LIMIT_PER_TRADE = 50, MOCK_TRADING = True\<rparr>"

section \<open>utils/helpers.py\<close>

text \<open>
  \<^verbatim>\<open>safe_float(value, default)\<close>: \<open>None\<close> gives the default, a number gives itself. A value
  that \<^verbatim>\<open>float()\<close> rejects also gives the default; such a value is represented by \<open>None\<close>.
  The source passes the default 0 and the default \<open>None\<close>, so the result is a float in one
  call and an optional float in the other: \<open>conv\<close> puts the float into the type of the default.
\<close>

definition safe_float :: "real option \<Rightarrow> 'a \<Rightarrow> (real \<Rightarrow> 'a) \<Rightarrow> 'a" where
  "safe_float v dflt conv = (case v of None \<Rightarrow> dflt | Some x \<Rightarrow> conv x)"

definition calculate_kelly_size :: "real \<Rightarrow> real \<Rightarrow> real \<Rightarrow> real \<Rightarrow> real \<Rightarrow> py_error + int" where
  "calculate_kelly_size edge current_price max_position risk_limit conservative_factor =
     (if current_price \<ge> 1 then Inr 0
      else case py_truediv edge (1 - current_price) of
        Inl e \<Rightarrow> Inl e
      | Inr kelly_fraction \<Rightarrow>
          (let raw_size = kelly_fraction * conservative_factor * max_position;
               final_size = min raw_size risk_limit
           in Inr (max 0 (py_int final_size))))"

text \<open>
  \<^verbatim>\<open>time_risk = 0.3 if hours_to_expiry and hours_to_expiry < 24 else 0\<close>: the first operand of
  \<^verbatim>\<open>and\<close> is the value's truthiness, false for \<open>None\<close> and for \<open>0.0\<close>.
\<close>

definition calculate_risk_score :: "real option \<Rightarrow> real option \<Rightarrow> real option \<Rightarrow> real" where
  "calculate_risk_score volume hours_to_expiry edge =
     (let volume' = safe_float volume 0 (\<lambda>x. x);
          edge' = safe_float edge 0 (\<lambda>x. x);
          hours' = (if hours_to_expiry \<noteq> None then safe_float hours_to_expiry None Some else None);
          volume_risk = (if volume' < 50000 then 3 / 10 else 0);
          time_risk = (case hours' of None \<Rightarrow> 0
                       | Some h \<Rightarrow> if h \<noteq> 0 \<and> h < 24 then 3 / 10 else 0);
          edge_risk = (if edge' < 1 / 10 then 4 / 10 else 0)
      in volume_risk + time_risk + edge_risk)"

section \<open>strategies/base.py: MarketOpportunity\<close>

text \<open>
  The strings of \<^verbatim>\<open>news_signals\<close> are f-strings over formatted numbers; a signal keeps
  which template it is and the numbers put into it.
\<close>

datatype signal =
    SigRuleBased
  | SigHoursToExpiry real
  | SigCurrentPrice real
  | SigNoPrice real real
  | SigExpectedReturn real
  | SigLLMAnalysis real
  | SigExpectedProbability real
  | SigReasoning string
  | SigRiskFactors "string list"

record MarketOpportunity =
  market_id :: string
  question :: string
  outcome :: string
  current_price :: real
  predicted_probability :: real
  confidence :: real
  expected_value :: real
  news_signals :: "signal list"
  risk_score :: real
  volume :: real
  hours_to_expiry :: "real option"
  edge :: real

text \<open>\<^verbatim>\<open>MarketOpportunity.__init__\<close>: the only place of the program that assigns \<open>edge\<close>.\<close>

definition MarketOpportunity_init ::
  "string \<Rightarrow> string \<Rightarrow> string \<Rightarrow> real \<Rightarrow> real \<Rightarrow> real \<Rightarrow> real \<Rightarrow> signal list \<Rightarrow> real \<Rightarrow> real
     \<Rightarrow> real option \<Rightarrow> MarketOpportunity" where
  "MarketOpportunity_init market_id' question' outcome' current_price' predicted_probability'
       confidence' expected_value' news_signals' risk_score' volume' hours_to_expiry' =
     \<lparr>market_id = market_id', question = question', outcome = outcome',
      current_price = current_price', predicted_probability = predicted_probability',
      confidence = confidence', expected_value = expected_value',
      news_signals = news_signals', risk_score = risk_score', volume = volume',
      hours_to_expiry = hours_to_expiry',
      edge = \<bar>predicted_probability' - current_price'\<bar>\<rparr>"

text \<open>
  The dictionary \<^verbatim>\<open>evaluate_opportunity\<close> reads with \<^verbatim>\<open>.get\<close>: one optional entry per
  key it looks up, \<open>None\<close> when the key is absent (for \<^verbatim>\<open>hours_to_expiry\<close> also when the
  entry is \<open>None\<close>).
\<close>

record opportunity_dict =
  d_market_id :: "string option"
  d_question :: "string option"
  d_outcome :: "string option"
  d_current_price :: "real option"
  d_predicted_probability :: "real option"
  d_confidence :: "real option"
  d_expected_value :: "real option"
  d_news_signals :: "signal list option"
  d_risk_score :: "real option"
  d_volume :: "real option"
  d_hours_to_expiry :: "real option"
  d_edge :: "real option"

definition to_dict :: "MarketOpportunity \<Rightarrow> opportunity_dict" where
  "to_dict self =
     \<lparr>d_market_id = Some (market_id self),
      d_question = Some (question self),
      d_outcome = Some (outcome self),
      d_current_price = Some (current_price self),
      d_predicted_probability = Some (predicted_probability self),
      d_confidence = Some (confidence self),
      d_expected_value = Some (expected_value self),
      d_news_signals = Some (news_signals self),
      d_risk_score = Some (risk_score self),
      d_volume = Some (volume self),
      d_hours_to_expiry = hours_to_expiry self,
      d_edge = Some (edge self)\<rparr>"

section \<open>services/risk_manager.py\<close>

record RiskManager =
  daily_trades :: int
  last_reset :: date
  open_positions :: int

text \<open>\<^verbatim>\<open>__init__\<close>; \<open>today\<close> is what \<^verbatim>\<open>datetime.now().date()\<close> returns.\<close>

definition RiskManager_init :: "date \<Rightarrow> RiskManager" where
  "RiskManager_init today = \<lparr>daily_trades = 0, last_reset = today, open_positions = 0\<rparr>"

text \<open>
  \<^verbatim>\<open>reset_daily_counter\<close> reads the clock itself; \<open>today\<close> is the date it reads. One
  evaluation is taken to read the same date each time it looks.
\<close>

definition reset_daily_counter :: "date \<Rightarrow> RiskManager \<Rightarrow> RiskManager" where
  "reset_daily_counter today self =
     (if today > last_reset self then self\<lparr>daily_trades := 0, last_reset := today\<rparr> else self)"

definition can_trade :: "config \<Rightarrow> date \<Rightarrow> RiskManager \<Rightarrow> bool \<times> RiskManager" where
  "can_trade cfg today self =
     (let self' = reset_daily_counter today self
      in if daily_trades self' \<ge> MAX_DAILY_TRADES cfg then (False, self')
         else if open_positions self' \<ge> MAX_OPEN_POSITIONS cfg then (False, self')
         else (True, self'))"

text \<open>The call leaves \<^verbatim>\<open>conservative_factor\<close> at its default, 0.25.\<close>

definition calculate_position_size :: "config \<Rightarrow> real \<Rightarrow> real \<Rightarrow> py_error + int" where
  "calculate_position_size cfg edge' current_price' =
     calculate_kelly_size edge' current_price' (MAX_POSITION_SIZE cfg) (RISK_LIMIT_PER_TRADE cfg)
       (1 / 4)"

text \<open>
  The rationale is the reasons joined by \<^verbatim>\<open>". "\<close>; each reason is a fixed phrase with
  formatted numbers. A reason keeps which phrase it is and the numbers put into it; no
  reason at all is the empty string.
\<close>

datatype reason =
    ReasonConfidence real
  | ReasonExpectedValue real
  | ReasonNewsSupport nat
  | ReasonPriceAdvantage real real
  | ReasonInsufficientConfidence real real
  | ReasonExpectedValueTooSmall real
  | ReasonRiskScoreTooHigh real
  | ReasonTradeLimitReached

text \<open>
  \<^verbatim>\<open>_generate_reasoning\<close>. The rejecting branch calls \<^verbatim>\<open>self.can_trade()\<close>, which may
  reset the daily counter, so the manager is returned with the reasons.
\<close>

definition generate_reasoning ::
  "config \<Rightarrow> date \<Rightarrow> RiskManager \<Rightarrow> opportunity_dict \<Rightarrow> bool \<Rightarrow> real \<Rightarrow> real
     \<Rightarrow> reason list \<times> RiskManager" where
  "generate_reasoning cfg today self opportunity should_trade final_confidence risk_score' =
     (if should_trade then
        ([ReasonConfidence final_confidence,
          ReasonExpectedValue (dict_get (d_expected_value opportunity) 0)]
         @ (case d_news_signals opportunity of
              None \<Rightarrow> []
            | Some sigs \<Rightarrow> if sigs \<noteq> [] then [ReasonNewsSupport (length sigs)] else [])
         @ (let edge' = dict_get (d_edge opportunity) 0
            in [ReasonPriceAdvantage (dict_get (d_current_price opportunity) 0)
                  (dict_get (d_current_price opportunity) 0 + edge')]),
         self)
      else
        (let (ok, self') = can_trade cfg today self
         in ((if final_confidence < MIN_CONFIDENCE_THRESHOLD cfg
              then [ReasonInsufficientConfidence final_confidence (MIN_CONFIDENCE_THRESHOLD cfg)]
              else [])
             @ (if dict_get (d_expected_value opportunity) 0 \<le> 5
                then [ReasonExpectedValueTooSmall (dict_get (d_expected_value opportunity) 0)]
                else [])
             @ (if risk_score' > 1 / 2 then [ReasonRiskScoreTooHigh risk_score'] else [])
             @ (if \<not> ok then [ReasonTradeLimitReached] else []),
             self')))"

record evaluation =
  should_trade :: bool
  position_size :: int
  final_confidence :: real
  ev_risk_score :: real
  reasoning :: "reason list"

text \<open>
  \<^verbatim>\<open>evaluate_opportunity\<close>. Python's \<^verbatim>\<open>and\<close> stops at the first false operand, so
  \<^verbatim>\<open>self.can_trade()\<close> runs in the condition only when the four operands before it hold.
\<close>

definition evaluate_opportunity ::
  "config \<Rightarrow> date \<Rightarrow> RiskManager \<Rightarrow> opportunity_dict \<Rightarrow> py_error + (evaluation \<times> RiskManager)" where
  "evaluate_opportunity cfg today self opportunity =
     (let risk_score' = calculate_risk_score (Some (dict_get (d_volume opportunity) 0))
                          (d_hours_to_expiry opportunity)
                          (Some (dict_get (d_edge opportunity) 0));
          confidence' = dict_get (d_confidence opportunity) 0;
          final_confidence' = confidence' * (1 - risk_score')
      in case calculate_position_size cfg (dict_get (d_edge opportunity) 0)
                (dict_get (d_current_price opportunity) (1 / 2)) of
           Inl e \<Rightarrow> Inl e
         | Inr position_size' \<Rightarrow>
             (let (should_trade', self1) =
                    (if final_confidence' \<ge> MIN_CONFIDENCE_THRESHOLD cfg \<and> position_size' > 0
                        \<and> dict_get (d_expected_value opportunity) 0 > 5 \<and> risk_score' < 1 / 2
                     then can_trade cfg today self
                     else (False, self));
                  (reasoning', self2) =
                    generate_reasoning cfg today self1 opportunity should_trade'
                      final_confidence' risk_score'
              in Inr (\<lparr>should_trade = should_trade', position_size = position_size',
                        final_confidence = final_confidence', ev_risk_score = risk_score',
                        reasoning = reasoning'\<rparr>, self2)))"

definition record_trade :: "RiskManager \<Rightarrow> RiskManager" where
  "record_trade self =
     self\<lparr>daily_trades := daily_trades self + 1, open_positions := open_positions self + 1\<rparr>"

definition close_position :: "RiskManager \<Rightarrow> RiskManager" where
  "close_position self =
     (if open_positions self > 0 then self\<lparr>open_positions := open_positions self - 1\<rparr>
      else self)"

text \<open>
  The operations a caller can apply to a manager, and a run of them from a fresh manager.
  An evaluation that raised would leave the manager as the exception found it; here that is
  the manager before the call.
\<close>

datatype rm_op = Evaluate date opportunity_dict | RecordTrade | ClosePosition

definition rm_step :: "config \<Rightarrow> RiskManager \<Rightarrow> rm_op \<Rightarrow> RiskManager" where
  "rm_step cfg self op =
     (case op of
        Evaluate today opportunity \<Rightarrow>
          (case evaluate_opportunity cfg today self opportunity of
             Inl e \<Rightarrow> self
           | Inr (ev, self') \<Rightarrow> self')
      | RecordTrade \<Rightarrow> record_trade self
      | ClosePosition \<Rightarrow> close_position self)"

definition rm_run :: "config \<Rightarrow> date \<Rightarrow> rm_op list \<Rightarrow> RiskManager" where
  "rm_run cfg start ops = foldl (rm_step cfg) (RiskManager_init start) ops"

section \<open>main.py: aggregation and the decision loop\<close>

text \<open>
  \<^verbatim>\<open>unique_opportunities\<close> is a Python \<^verbatim>\<open>dict\<close>, which keeps its keys in the order of their
  first insertion and overwrites a value in place: an association list under
  \<^const>\<open>AList.update\<close>. One round of the loop over \<^verbatim>\<open>all_opportunities\<close>:
\<close>

definition dedup_step ::
  "(string \<times> MarketOpportunity) list \<Rightarrow> MarketOpportunity \<Rightarrow> (string \<times> MarketOpportunity) list" where
  "dedup_step unique_opportunities opp =
     (case map_of unique_opportunities (market_id opp) of
        None \<Rightarrow> AList.update (market_id opp) opp unique_opportunities
      | Some kept \<Rightarrow>
          if expected_value opp > expected_value kept
          then AList.update (market_id opp) opp unique_opportunities
          else unique_opportunities)"

definition unique_opportunities ::
  "MarketOpportunity list \<Rightarrow> (string \<times> MarketOpportunity) list" where
  "unique_opportunities all_opportunities = foldl dedup_step [] all_opportunities"

text \<open>
  \<^verbatim>\<open>opportunities.sort(key=lambda x: x.expected_value, reverse=True)\<close>: Python's sort is
  stable also under \<^verbatim>\<open>reverse=True\<close> (equal keys keep their order), which is the stable
  ascending sort on the negated key.
\<close>

definition rank_opportunities :: "MarketOpportunity list \<Rightarrow> MarketOpportunity list" where
  "rank_opportunities all_opportunities =
     sort_key (\<lambda>x. - expected_value x) (map snd (unique_opportunities all_opportunities))"

text \<open>
  \<^verbatim>\<open>execute_trade\<close>: in mock mode it computes the shares and the return rate (two float
  divisions) for the log and reports success; otherwise it reports failure.
\<close>

definition execute_trade :: "config \<Rightarrow> MarketOpportunity \<Rightarrow> int \<Rightarrow> py_error + bool" where
  "execute_trade cfg opportunity position_size' =
     (if MOCK_TRADING cfg then
        (case py_truediv (real_of_int position_size') (current_price opportunity) of
           Inl e \<Rightarrow> Inl e
         | Inr shares \<Rightarrow>
             (let potential_profit =
                    (if outcome opportunity = ''YES'' then shares * (1 - current_price opportunity)
                     else shares * current_price opportunity)
              in case py_truediv potential_profit (real_of_int position_size') of
                   Inl e \<Rightarrow> Inl e
                 | Inr rate \<Rightarrow> Inr True))
      else Inr False)"

text \<open>
  The loop of \<^verbatim>\<open>evaluate_and_execute\<close> over \<^verbatim>\<open>opportunities[:10]\<close>, carrying
  \<^verbatim>\<open>executed_count\<close> and the risk manager. An exception leaves the loop with the manager as
  it is at that moment.
\<close>

fun evaluate_and_execute_loop ::
  "config \<Rightarrow> date \<Rightarrow> nat \<Rightarrow> RiskManager \<Rightarrow> MarketOpportunity list
     \<Rightarrow> (py_error \<times> RiskManager) + (nat \<times> RiskManager)" where
  "evaluate_and_execute_loop cfg today executed_count rm [] = Inr (executed_count, rm)"
| "evaluate_and_execute_loop cfg today executed_count rm (opp # rest) =
     (case evaluate_opportunity cfg today rm (to_dict opp) of
        Inl e \<Rightarrow> Inl (e, rm)
      | Inr (evaluation, rm') \<Rightarrow>
          if should_trade evaluation then
            (case execute_trade cfg opp (position_size evaluation) of
               Inl e \<Rightarrow> Inl (e, rm')
             | Inr success \<Rightarrow>
                 if success
                 then evaluate_and_execute_loop cfg today (executed_count + 1) (record_trade rm') rest
                 else evaluate_and_execute_loop cfg today executed_count rm' rest)
          else evaluate_and_execute_loop cfg today executed_count rm' rest)"

definition evaluate_and_execute ::
  "config \<Rightarrow> date \<Rightarrow> RiskManager \<Rightarrow> MarketOpportunity list
     \<Rightarrow> (py_error \<times> RiskManager) + (nat \<times> RiskManager)" where
  "evaluate_and_execute cfg today rm opportunities =
     evaluate_and_execute_loop cfg today 0 rm (take 10 opportunities)"

section \<open>services/llm.py\<close>

text \<open>
  \<^verbatim>\<open>call_with_retry\<close>. The request itself is outside the program: \<open>call attempt\<close> is the
  text the request of that attempt returns, \<open>None\<close> when it raises (timeout, transport
  error, malformed reply). The loop runs over \<^verbatim>\<open>range(max_retries + 1)\<close>.
\<close>

fun call_with_retry_loop :: "(nat \<Rightarrow> string option) \<Rightarrow> nat \<Rightarrow> nat \<Rightarrow> nat \<Rightarrow> string option" where
  "call_with_retry_loop call max_retries attempt 0 = None"
| "call_with_retry_loop call max_retries attempt (Suc remaining) =
     (case call attempt of
        Some content \<Rightarrow> Some content
      | None \<Rightarrow>
          if attempt < max_retries
          then call_with_retry_loop call max_retries (Suc attempt) remaining
          else None)"

definition call_with_retry :: "(nat \<Rightarrow> string option) \<Rightarrow> nat \<Rightarrow> string option" where
  "call_with_retry call max_retries = call_with_retry_loop call max_retries 0 (max_retries + 1)"

section \<open>strategies/llm\_expiring\_markets.py\<close>

text \<open>Running on after an operation that may raise.\<close>

definition py_bind :: "py_error + 'a \<Rightarrow> ('a \<Rightarrow> py_error + 'b) \<Rightarrow> py_error + 'b" where
  "py_bind r f = (case r of Inl e \<Rightarrow> Inl e | Inr v \<Rightarrow> f v)"

text \<open>\<^verbatim>\<open>str.upper\<close>, on the ASCII letters.\<close>

definition upper_char :: "char \<Rightarrow> char" where
  "upper_char c =
     (case map_of (zip ''abcdefghijklmnopqrstuvwxyz'' ''ABCDEFGHIJKLMNOPQRSTUVWXYZ'') c of
        None \<Rightarrow> c
      | Some u \<Rightarrow> u)"

definition upper :: "string \<Rightarrow> string" where
  "upper s = map upper_char s"

record strategy_config =
  min_probability :: real
  max_hours_to_expiry :: real
  min_hours_to_expiry :: real
  min_volume :: real
  llm_confidence_threshold :: real

text \<open>The strategy's configuration under the defaults of \<^verbatim>\<open>config.py\<close>.\<close>

definition default_strategy_config :: strategy_config where
  "default_strategy_config =
     \<lparr>min_probability = 95 / 100, max_hours_to_expiry = 48, min_hours_to_expiry = 2,
      min_volume = 10000, llm_confidence_threshold = 7 / 10\<rparr>"

text \<open>
  A market as \<^verbatim>\<open>analyze_market\<close> reads it. \<open>end_hours\<close> is
  \<^verbatim>\<open>hours_until_expiry(parse_market_end_date(market["endDate"]))\<close> at the time of the call,
  \<open>None\<close> when the key is absent or the date does not parse; \<open>m_prices\<close> is what
  \<^verbatim>\<open>extract_prices\<close> returns; \<open>m_outcomes\<close> is the decoded \<^verbatim>\<open>outcomes\<close> entry, or
  \<^verbatim>\<open>["Yes", "No"]\<close> when it is absent or does not decode.
\<close>

record market =
  conditionId :: "string option"
  m_question :: "string option"
  end_hours :: "real option"
  m_volume :: "real option"
  m_prices :: "real list"
  m_outcomes :: "string list"

text \<open>The JSON object of a reply, one optional entry per key the strategy reads.\<close>

record llm_result =
  has_opportunity :: "bool option"
  llm_confidence :: "real option"
  recommended_outcome :: "string option"
  expected_probability :: "real option"
  llm_reasoning :: "string option"
  risk_factors :: "string list option"

text \<open>
  \<^verbatim>\<open>_parse_llm_response\<close>: \<open>loads\<close> stands for the regular-expression search and
  \<^verbatim>\<open>json.loads\<close>; it gives \<open>None\<close> when the reply holds no JSON object or the object does
  not decode (the \<^verbatim>\<open>JSONDecodeError\<close> is caught there).
\<close>

definition parse_llm_response :: "(string \<Rightarrow> llm_result option) \<Rightarrow> string \<Rightarrow> llm_result option" where
  "parse_llm_response loads response = loads response"

text \<open>The search for the recommended outcome; \<open>None\<close> is the source's index \<open>-1\<close>.\<close>

fun find_outcome_index :: "string list \<Rightarrow> string \<Rightarrow> nat \<Rightarrow> nat option" where
  "find_outcome_index [] recommended i = None"
| "find_outcome_index (outcome' # rest) recommended i =
     (if upper outcome' = recommended then Some i
      else find_outcome_index rest recommended (Suc i))"

text \<open>
  \<^verbatim>\<open>_analyze_with_llm\<close>. An empty reply is as falsy as no reply. An empty JSON object is
  falsy too and returns the empty list; here it has no \<^verbatim>\<open>has_opportunity\<close> entry and
  returns the empty list one check later.
\<close>

definition analyze_with_llm ::
  "strategy_config \<Rightarrow> (nat \<Rightarrow> string option) \<Rightarrow> (string \<Rightarrow> llm_result option) \<Rightarrow> market
     \<Rightarrow> real list \<Rightarrow> string list \<Rightarrow> real \<Rightarrow> real \<Rightarrow> py_error + MarketOpportunity list" where
  "analyze_with_llm cfg call loads mkt prices outcomes hours_to_exp volume' =
     (case call_with_retry call 2 of
        None \<Rightarrow> Inr []
      | Some response \<Rightarrow>
          if response = [] then Inr []
          else case parse_llm_response loads response of
            None \<Rightarrow> Inr []
          | Some result \<Rightarrow>
              if \<not> dict_get (has_opportunity result) False then Inr []
              else if dict_get (llm_confidence result) 0 < llm_confidence_threshold cfg then Inr []
              else
                (let recommended = upper (dict_get (recommended_outcome result) []);
                     expected_prob = dict_get (expected_probability result) (99 / 100);
                     reasoning' = dict_get (llm_reasoning result) [];
                     risk_factors' = dict_get (risk_factors result) []
                 in case find_outcome_index outcomes recommended 0 of
                      None \<Rightarrow> Inr []
                    | Some outcome_index \<Rightarrow>
                        if outcome_index \<ge> length prices then Inr []
                        else
                          (let current_price' = prices ! outcome_index;
                               profit_margin = expected_prob - current_price'
                           in py_bind
                                (if current_price' > 0
                                 then py_bind (py_truediv profit_margin current_price')
                                        (\<lambda>q. Inr (q * 100))
                                 else Inr 0)
                                (\<lambda>expected_return.
                                   if profit_margin \<le> 0 then Inr []
                                   else py_bind (py_truediv hours_to_exp (max_hours_to_expiry cfg))
                                     (\<lambda>q.
                                        let llm_confidence' = dict_get (llm_confidence result) 0;
                                            price_risk = 1 - expected_prob;
                                            time_risk = min (3 / 10) q;
                                            volume_risk = (if volume' < 50000 then 2 / 10 else 0);
                                            llm_risk = 1 - llm_confidence';
                                            risk_score' =
                                              (price_risk + time_risk + volume_risk + llm_risk) / 4
                                        in Inr [MarketOpportunity_init
                                                  (dict_get (conditionId mkt) [])
                                                  (dict_get (m_question mkt) [])
                                                  recommended current_price' expected_prob
                                                  llm_confidence' expected_return
                                                  ([SigLLMAnalysis llm_confidence',
                                                    SigHoursToExpiry hours_to_exp,
                                                    SigCurrentPrice current_price',
                                                    SigExpectedProbability expected_prob,
                                                    SigExpectedReturn expected_return,
                                                    SigReasoning reasoning']
                                                   @ (if risk_factors' \<noteq> []
                                                      then [SigRiskFactors risk_factors']
                                                      else []))
                                                  risk_score' volume' (Some hours_to_exp)])))))"

text \<open>
  \<^verbatim>\<open>_analyze_with_rules\<close>: what one round of its loop appends for an outcome with a price.
  The two tests are separate \<^verbatim>\<open>if\<close>s, so one price can pass both.
\<close>

definition rules_for_outcome ::
  "strategy_config \<Rightarrow> market \<Rightarrow> real \<Rightarrow> string \<Rightarrow> real \<Rightarrow> real \<Rightarrow> py_error + MarketOpportunity list" where
  "rules_for_outcome cfg mkt price outcome' hours_to_exp volume' =
     py_bind
       (if price \<ge> min_probability cfg then
          (let profit_margin = 1 - price;
               expected_return = profit_margin * 100
           in py_bind (py_truediv (price - min_probability cfg) (1 - min_probability cfg))
                (\<lambda>price_conf.
                   py_bind (py_truediv hours_to_exp (max_hours_to_expiry cfg))
                     (\<lambda>q.
                        let time_conf = 1 - q;
                            confidence' = min (95 / 100) ((price_conf + time_conf) / 2)
                        in Inr [MarketOpportunity_init
                                  (dict_get (conditionId mkt) []) (dict_get (m_question mkt) [])
                                  (upper outcome') price (99 / 100) confidence' expected_return
                                  [SigRuleBased, SigHoursToExpiry hours_to_exp,
                                   SigCurrentPrice price, SigExpectedReturn expected_return]
                                  (1 - price) volume' (Some hours_to_exp)])))
        else Inr [])
       (\<lambda>high.
          py_bind
            (if price \<le> 1 - min_probability cfg then
               (let no_price = 1 - price;
                    profit_margin = 1 - no_price;
                    expected_return = profit_margin * 100
                in py_bind (py_truediv (no_price - min_probability cfg) (1 - min_probability cfg))
                     (\<lambda>price_conf.
                        py_bind (py_truediv hours_to_exp (max_hours_to_expiry cfg))
                          (\<lambda>q.
                             let time_conf = 1 - q;
                                 confidence' = min (95 / 100) ((price_conf + time_conf) / 2)
                             in Inr [MarketOpportunity_init
                                       (dict_get (conditionId mkt) [])
                                       (dict_get (m_question mkt) [])
                                       ''NO'' no_price (99 / 100) confidence' expected_return
                                       [SigRuleBased, SigHoursToExpiry hours_to_exp,
                                        SigNoPrice no_price price,
                                        SigExpectedReturn expected_return]
                                       (1 - no_price) volume' (Some hours_to_exp)])))
             else Inr [])
            (\<lambda>low. Inr (high @ low)))"

fun analyze_with_rules_loop ::
  "strategy_config \<Rightarrow> market \<Rightarrow> real list \<Rightarrow> real \<Rightarrow> real \<Rightarrow> nat \<Rightarrow> string list
     \<Rightarrow> py_error + MarketOpportunity list" where
  "analyze_with_rules_loop cfg mkt prices hours_to_exp volume' i [] = Inr []"
| "analyze_with_rules_loop cfg mkt prices hours_to_exp volume' i (outcome' # rest) =
     (if i \<ge> length prices
      then analyze_with_rules_loop cfg mkt prices hours_to_exp volume' (Suc i) rest
      else case rules_for_outcome cfg mkt (prices ! i) outcome' hours_to_exp volume' of
             Inl e \<Rightarrow> Inl e
           | Inr found \<Rightarrow>
               (case analyze_with_rules_loop cfg mkt prices hours_to_exp volume' (Suc i) rest of
                  Inl e \<Rightarrow> Inl e
                | Inr later \<Rightarrow> Inr (found @ later)))"

definition analyze_with_rules ::
  "strategy_config \<Rightarrow> market \<Rightarrow> real list \<Rightarrow> string list \<Rightarrow> real \<Rightarrow> real
     \<Rightarrow> py_error + MarketOpportunity list" where
  "analyze_with_rules cfg mkt prices outcomes hours_to_exp volume' =
     analyze_with_rules_loop cfg mkt prices hours_to_exp volume' 0 outcomes"

text \<open>
  \<^verbatim>\<open>analyze_market\<close>: the eligibility filter, then the model-assisted analysis when the
  service is enabled, then the rules when that gave nothing.
\<close>

definition analyze_market ::
  "strategy_config \<Rightarrow> bool \<Rightarrow> (nat \<Rightarrow> string option) \<Rightarrow> (string \<Rightarrow> llm_result option) \<Rightarrow> market
     \<Rightarrow> py_error + MarketOpportunity list" where
  "analyze_market cfg llm_enabled call loads mkt =
     (case end_hours mkt of
        None \<Rightarrow> Inr []
      | Some hours_to_exp \<Rightarrow>
          if hours_to_exp > max_hours_to_expiry cfg \<or> hours_to_exp < min_hours_to_expiry cfg
          then Inr []
          else
            (let volume' = dict_get (m_volume mkt) 0
             in if volume' < min_volume cfg then Inr []
                else
                  (let prices = m_prices mkt;
                       outcomes = m_outcomes mkt
                   in if llm_enabled then
                        py_bind (analyze_with_llm cfg call loads mkt prices outcomes hours_to_exp volume')
                          (\<lambda>llm_opportunities.
                             if llm_opportunities \<noteq> [] then Inr llm_opportunities
                             else analyze_with_rules cfg mkt prices outcomes hours_to_exp volume')
                      else analyze_with_rules cfg mkt prices outcomes hours_to_exp volume')))"

section \<open>Helper facts\<close>

lemma py_int_max: "max 0 (py_int x) = max 0 \<lfloor>x\<rfloor>"
proof (cases "0 \<le> x")
  case True
  then show ?thesis by (simp add: py_int_def)
next
  case False
  then have "x \<le> 0" and "x < 1" by simp_all
  then have c: "\<lceil>x\<rceil> \<le> 0" and f: "\<lfloor>x\<rfloor> \<le> 0"
    unfolding ceiling_le_zero floor_le_zero .
  have "max 0 \<lceil>x\<rceil> = 0" and "max 0 \<lfloor>x\<rfloor> = 0"
    using c f by (simp_all only: max_absorb1)
  with False show ?thesis by (simp only: py_int_def if_False)
qed

lemma calculate_kelly_size_value:
  "calculate_kelly_size e p m r c =
     Inr (if 1 \<le> p then 0 else max 0 \<lfloor>min (e / (1 - p) * c * m) r\<rfloor>)"
  by (simp add: calculate_kelly_size_def py_truediv_def Let_def py_int_max)

lemma reset_daily_counter_idem:
  "reset_daily_counter today (reset_daily_counter today rm) = reset_daily_counter today rm"
  by (simp add: reset_daily_counter_def)

lemma reset_daily_counter_open_positions:
  "open_positions (reset_daily_counter today rm) = open_positions rm"
  by (simp add: reset_daily_counter_def)

lemma can_trade_state: "snd (can_trade cfg today rm) = reset_daily_counter today rm"
  by (simp add: can_trade_def Let_def)

lemma can_trade_value:
  "fst (can_trade cfg today rm) \<longleftrightarrow>
     daily_trades (reset_daily_counter today rm) < MAX_DAILY_TRADES cfg
     \<and> open_positions rm < MAX_OPEN_POSITIONS cfg"
  by (auto simp add: can_trade_def Let_def reset_daily_counter_open_positions)

lemma can_trade_eq:
  "can_trade cfg today rm =
     (daily_trades (reset_daily_counter today rm) < MAX_DAILY_TRADES cfg
        \<and> open_positions rm < MAX_OPEN_POSITIONS cfg,
      reset_daily_counter today rm)"
  by (rule prod_eqI) (simp_all add: can_trade_state can_trade_value)

lemma generate_reasoning_state:
  "snd (generate_reasoning cfg today rm d st fc rs) =
     (if st then rm else reset_daily_counter today rm)"
  by (simp add: generate_reasoning_def can_trade_eq)

lemma generate_reasoning_rejecting:
  "fst (generate_reasoning cfg today rm d False fc rs) =
     (if fc < MIN_CONFIDENCE_THRESHOLD cfg
      then [ReasonInsufficientConfidence fc (MIN_CONFIDENCE_THRESHOLD cfg)] else [])
     @ (if dict_get (d_expected_value d) 0 \<le> 5
        then [ReasonExpectedValueTooSmall (dict_get (d_expected_value d) 0)] else [])
     @ (if rs > 1 / 2 then [ReasonRiskScoreTooHigh rs] else [])
     @ (if \<not> (daily_trades (reset_daily_counter today rm) < MAX_DAILY_TRADES cfg
              \<and> open_positions rm < MAX_OPEN_POSITIONS cfg)
        then [ReasonTradeLimitReached] else [])"
  by (simp add: generate_reasoning_def can_trade_eq)

lemma calculate_position_size_value:
  "calculate_position_size cfg e p =
     Inr (if 1 \<le> p then 0
          else max 0 \<lfloor>min (e / (1 - p) * (1 / 4) * MAX_POSITION_SIZE cfg) (RISK_LIMIT_PER_TRADE cfg)\<rfloor>)"
  unfolding calculate_position_size_def by (rule calculate_kelly_size_value)

lemma evaluate_opportunity_result:
  fixes cfg today rm d
  defines "rs \<equiv> calculate_risk_score (Some (dict_get (d_volume d) 0)) (d_hours_to_expiry d)
                   (Some (dict_get (d_edge d) 0))"
  defines "fc \<equiv> dict_get (d_confidence d) 0 * (1 - rs)"
  defines "rm' \<equiv> reset_daily_counter today rm"
  shows "\<exists>ps. calculate_position_size cfg (dict_get (d_edge d) 0)
                 (dict_get (d_current_price d) (1 / 2)) = Inr ps
     \<and> (\<exists>st. (st \<longleftrightarrow> fc \<ge> MIN_CONFIDENCE_THRESHOLD cfg \<and> ps > 0
                    \<and> dict_get (d_expected_value d) 0 > 5 \<and> rs < 1 / 2
                    \<and> daily_trades rm' < MAX_DAILY_TRADES cfg
                    \<and> open_positions rm' < MAX_OPEN_POSITIONS cfg)
          \<and> evaluate_opportunity cfg today rm d =
              Inr (\<lparr>should_trade = st, position_size = ps, final_confidence = fc,
                     ev_risk_score = rs,
                     reasoning = fst (generate_reasoning cfg today rm d st fc rs)\<rparr>, rm'))"
proof -
  obtain ps where ps: "calculate_position_size cfg (dict_get (d_edge d) 0)
                 (dict_get (d_current_price d) (1 / 2)) = Inr ps"
    by (simp add: calculate_position_size_value)
  define pre where "pre \<longleftrightarrow> fc \<ge> MIN_CONFIDENCE_THRESHOLD cfg \<and> ps > 0
                    \<and> dict_get (d_expected_value d) 0 > 5 \<and> rs < 1 / 2"
  define st where "st \<longleftrightarrow> pre \<and> daily_trades rm' < MAX_DAILY_TRADES cfg
                    \<and> open_positions rm' < MAX_OPEN_POSITIONS cfg"
  have op: "open_positions rm' = open_positions rm"
    by (simp add: rm'_def reset_daily_counter_open_positions)
  have idem: "reset_daily_counter today rm' = rm'"
    by (simp add: rm'_def reset_daily_counter_idem)
  have fstgen: "fst (generate_reasoning cfg today rm' d b fc rs)
      = fst (generate_reasoning cfg today rm d b fc rs)" for b
    by (simp add: generate_reasoning_def can_trade_eq rm'_def reset_daily_counter_idem
        reset_daily_counter_open_positions)
  have ct: "can_trade cfg today rm = (daily_trades rm' < MAX_DAILY_TRADES cfg
                    \<and> open_positions rm' < MAX_OPEN_POSITIONS cfg, rm')"
    by (simp add: can_trade_eq rm'_def reset_daily_counter_open_positions)
  have "evaluate_opportunity cfg today rm d =
              Inr (\<lparr>should_trade = st, position_size = ps, final_confidence = fc,
                     ev_risk_score = rs,
                     reasoning = fst (generate_reasoning cfg today rm d st fc rs)\<rparr>, rm')"
  proof (cases pre)
    case True
    then have st: "st \<longleftrightarrow> daily_trades rm' < MAX_DAILY_TRADES cfg
                    \<and> open_positions rm' < MAX_OPEN_POSITIONS cfg"
      by (simp add: st_def)
    have "evaluate_opportunity cfg today rm d =
       (case generate_reasoning cfg today rm' d st fc rs of
          (reasoning', self2) \<Rightarrow>
             Inr (\<lparr>should_trade = st, position_size = ps, final_confidence = fc,
                     ev_risk_score = rs, reasoning = reasoning'\<rparr>, self2))"
      using True [unfolded pre_def] ps
      by (simp add: evaluate_opportunity_def Let_def rs_def [symmetric] fc_def [symmetric] ct st)
    then show ?thesis
      by (simp add: split_beta generate_reasoning_state idem fstgen)
  next
    case False
    then have st: "\<not> st" by (simp add: st_def)
    have "evaluate_opportunity cfg today rm d =
       (case generate_reasoning cfg today rm d False fc rs of
          (reasoning', self2) \<Rightarrow>
             Inr (\<lparr>should_trade = False, position_size = ps, final_confidence = fc,
                     ev_risk_score = rs, reasoning = reasoning'\<rparr>, self2))"
      using False [unfolded pre_def] ps
      by (auto simp add: evaluate_opportunity_def Let_def rs_def [symmetric] fc_def [symmetric])
    then show ?thesis
      using st by (simp add: split_beta generate_reasoning_state rm'_def)
  qed
  then show ?thesis using ps by (auto simp: st_def pre_def)
qed

lemma reset_daily_counter_stable:
  "today \<le> last_reset rm \<Longrightarrow> reset_daily_counter today rm = rm"
  by (simp add: reset_daily_counter_def)

lemma evaluate_opportunity_state:
  "\<exists>ev. evaluate_opportunity cfg today rm d = Inr (ev, reset_daily_counter today rm)"
  using evaluate_opportunity_result [of cfg d today rm] by force

lemma rm_step_nonneg:
  assumes "0 \<le> daily_trades rm" and "0 \<le> open_positions rm"
  shows "0 \<le> daily_trades (rm_step cfg rm op) \<and> 0 \<le> open_positions (rm_step cfg rm op)"
proof (cases op)
  case (Evaluate today d)
  obtain ev where "evaluate_opportunity cfg today rm d = Inr (ev, reset_daily_counter today rm)"
    using evaluate_opportunity_state by blast
  with Evaluate assms show ?thesis
    by (simp add: rm_step_def reset_daily_counter_def)
next
  case RecordTrade
  with assms show ?thesis by (simp add: rm_step_def record_trade_def)
next
  case ClosePosition
  with assms show ?thesis by (simp add: rm_step_def close_position_def)
qed

lemma foldl_rm_step_nonneg:
  "0 \<le> daily_trades rm \<Longrightarrow> 0 \<le> open_positions rm \<Longrightarrow>
     0 \<le> daily_trades (foldl (rm_step cfg) rm ops) \<and> 0 \<le> open_positions (foldl (rm_step cfg) rm ops)"
proof (induction ops arbitrary: rm)
  case Nil
  then show ?case by simp
next
  case (Cons op ops)
  from rm_step_nonneg [OF Cons.prems, of cfg op] Cons.IH [of "rm_step cfg rm op"]
  show ?case by simp
qed

lemma reset_after_reset:
  "\<not> today > last_reset (reset_daily_counter today rm)"
  by (simp add: reset_daily_counter_def)

lemma evaluate_and_execute_loop_counts:
  "evaluate_and_execute_loop cfg today n rm opps = Inr (n', rm') \<Longrightarrow>
     n \<le> n' \<and> open_positions rm' = open_positions rm + int (n' - n)
     \<and> daily_trades rm' =
         daily_trades (if opps = [] then rm else reset_daily_counter today rm) + int (n' - n)"
proof (induction opps arbitrary: n rm)
  case Nil
  then show ?case by simp
next
  case (Cons opp rest)
  obtain ev where ev: "evaluate_opportunity cfg today rm (to_dict opp)
      = Inr (ev, reset_daily_counter today rm)"
    using evaluate_opportunity_state by blast
  let ?rm1 = "reset_daily_counter today rm"
  have stay: "reset_daily_counter today ?rm1 = ?rm1"
    by (rule reset_daily_counter_idem)
  have stay': "reset_daily_counter today (record_trade ?rm1) = record_trade ?rm1"
    using reset_after_reset [of today rm]
    by (simp add: reset_daily_counter_def record_trade_def)
  show ?case
  proof (cases "should_trade ev \<and> execute_trade cfg opp (position_size ev) = Inr True")
    case True
    with Cons.prems ev
    have "evaluate_and_execute_loop cfg today (n + 1) (record_trade ?rm1) rest = Inr (n', rm')"
      by simp
    from Cons.IH [OF this]
    have "n + 1 \<le> n'"
      and "open_positions rm' = open_positions (record_trade ?rm1) + int (n' - (n + 1))"
      and "daily_trades rm' = daily_trades (record_trade ?rm1) + int (n' - (n + 1))"
      by (simp_all add: stay')
    moreover have "open_positions (record_trade ?rm1) = open_positions rm + 1"
      and "daily_trades (record_trade ?rm1) = daily_trades ?rm1 + 1"
      by (simp_all add: record_trade_def reset_daily_counter_open_positions)
    ultimately show ?thesis by simp
  next
    case False
    with Cons.prems ev
    have "evaluate_and_execute_loop cfg today n ?rm1 rest = Inr (n', rm')"
      by (auto split: sum.splits if_splits)
    from Cons.IH [OF this] show ?thesis
      by (auto simp: stay reset_daily_counter_open_positions)
  qed
qed

lemma calculate_risk_score_range:
  "0 \<le> calculate_risk_score v h e \<and> calculate_risk_score v h e \<le> 1"
  by (simp add: calculate_risk_score_def safe_float_def Let_def split: option.split)

lemma calculate_risk_score_mono_volume:
  "v1 \<le> v2 \<Longrightarrow> calculate_risk_score (Some v2) h e \<le> calculate_risk_score (Some v1) h e"
  by (simp add: calculate_risk_score_def safe_float_def Let_def)

lemma calculate_risk_score_mono_edge:
  "e1 \<le> e2 \<Longrightarrow> calculate_risk_score v h (Some e2) \<le> calculate_risk_score v h (Some e1)"
  by (simp add: calculate_risk_score_def safe_float_def Let_def)

lemma calculate_risk_score_mono_hours:
  "h1 \<le> h2 \<Longrightarrow> h1 \<noteq> 0 \<Longrightarrow>
     calculate_risk_score v (Some h2) e \<le> calculate_risk_score v (Some h1) e"
  by (simp add: calculate_risk_score_def safe_float_def Let_def)

lemma calculate_risk_score_values:
  "calculate_risk_score v h e \<in> {0, 3 / 10, 4 / 10, 6 / 10, 7 / 10, 1}"
  by (simp add: calculate_risk_score_def safe_float_def Let_def split: option.split)

lemma dedup_step_keys:
  "map fst (dedup_step d x) =
     (if market_id x \<in> set (map fst d) then map fst d else map fst d @ [market_id x])"
  by (auto simp: dedup_step_def update_keys map_of_eq_None_iff split: option.splits
      dest: map_of_SomeD intro: rev_image_eqI)

lemma first_seen_snoc:
  "rev (remdups (rev (ks @ [k]))) =
     (if k \<in> set ks then rev (remdups (rev ks)) else rev (remdups (rev ks)) @ [k])"
  by simp

lemma unique_opportunities_keys:
  "map fst (unique_opportunities xs) = rev (remdups (rev (map market_id xs)))"
proof (induction xs rule: rev_induct)
  case Nil
  then show ?case by (simp add: unique_opportunities_def)
next
  case (snoc x xs)
  have "set (map fst (unique_opportunities xs)) = set (map market_id xs)"
    by (simp only: snoc.IH set_rev set_remdups)
  with snoc show ?case
    by (simp add: unique_opportunities_def dedup_step_keys del: set_map)
qed

lemma dedup_step_invariant:
  assumes dist: "distinct (map fst d)"
    and ent': "\<forall>k v. map_of d k = Some v \<longrightarrow>
                market_id v = k \<and> v \<in> S
                \<and> (\<forall>y\<in>S. market_id y = k \<longrightarrow> expected_value y \<le> expected_value v)"
    and dom': "\<forall>y\<in>S. map_of d (market_id y) \<noteq> None"
  shows "distinct (map fst (dedup_step d x))
     \<and> (\<forall>k v. map_of (dedup_step d x) k = Some v \<longrightarrow>
            market_id v = k \<and> v \<in> insert x S
            \<and> (\<forall>y\<in>insert x S. market_id y = k \<longrightarrow> expected_value y \<le> expected_value v))
     \<and> (\<forall>y\<in>insert x S. map_of (dedup_step d x) (market_id y) \<noteq> None)"
proof -
  have ent: "market_id v = k \<and> v \<in> S
                \<and> (\<forall>y\<in>S. market_id y = k \<longrightarrow> expected_value y \<le> expected_value v)"
    if "map_of d k = Some v" for k v
    using ent' that by blast
  have dom: "map_of d (market_id y) \<noteq> None" if "y \<in> S" for y
    using dom' that by blast
  show ?thesis
  proof (cases "map_of d (market_id x)")
    case None
    then have step: "dedup_step d x = AList.update (market_id x) x d"
      by (simp add: dedup_step_def)
    have fresh: "market_id y \<noteq> market_id x" if "y \<in> S" for y
      using dom [OF that] None by auto
    show ?thesis
      unfolding step
      using dist ent dom fresh
      by (auto simp: distinct_update update_conv')
  next
    case (Some kept)
    note k = ent [OF Some]
    show ?thesis
    proof (cases "expected_value x > expected_value kept")
      case True
      with Some have step: "dedup_step d x = AList.update (market_id x) x d"
        by (simp add: dedup_step_def)
      have below: "expected_value y \<le> expected_value x"
        if "y \<in> S" "market_id y = market_id x" for y
        using k that True by fastforce
      show ?thesis
        unfolding step
        using dist ent dom below
        by (auto simp: distinct_update update_conv')
    next
      case False
      with Some have step: "dedup_step d x = d"
        by (simp add: dedup_step_def)
      show ?thesis
        unfolding step
        using dist ent dom False Some k
        by (auto, fastforce+)
    qed
  qed
qed

lemma foldl_dedup_invariant:
  assumes "distinct (map fst d)"
    and "\<forall>k v. map_of d k = Some v \<longrightarrow>
                market_id v = k \<and> v \<in> S
                \<and> (\<forall>y\<in>S. market_id y = k \<longrightarrow> expected_value y \<le> expected_value v)"
    and "\<forall>y\<in>S. map_of d (market_id y) \<noteq> None"
  shows "distinct (map fst (foldl dedup_step d xs))
     \<and> (\<forall>k v. map_of (foldl dedup_step d xs) k = Some v \<longrightarrow>
            market_id v = k \<and> v \<in> S \<union> set xs
            \<and> (\<forall>y\<in>S \<union> set xs. market_id y = k \<longrightarrow> expected_value y \<le> expected_value v))
     \<and> (\<forall>y\<in>S \<union> set xs. map_of (foldl dedup_step d xs) (market_id y) \<noteq> None)"
  using assms
proof (induction xs arbitrary: d S)
  case Nil
  then show ?case by simp
next
  case (Cons x xs)
  note step = dedup_step_invariant [OF Cons.prems, of x]
  note a = step [THEN conjunct1]
    and b = step [THEN conjunct2, THEN conjunct1]
    and c = step [THEN conjunct2, THEN conjunct2]
  have eq: "S \<union> set (x # xs) = insert x S \<union> set xs" by simp
  show ?case
    unfolding foldl_Cons eq by (rule Cons.IH [OF a b c])
qed

lemma set_map_sort_key: "set (map g (sort_key f l)) = set (map g l)"
  by simp

lemma distinct_map_sort_key: "distinct (map g (sort_key f l)) \<longleftrightarrow> distinct (map g l)"
  by (simp add: distinct_map)

lemma unique_opportunities_kept:
  assumes "v \<in> set (map snd (unique_opportunities xs))"
  shows "v \<in> set xs
     \<and> (\<forall>y\<in>set xs. market_id y = market_id v \<longrightarrow> expected_value y \<le> expected_value v)"
proof -
  have inv: "distinct (map fst (unique_opportunities xs))
     \<and> (\<forall>k v. map_of (unique_opportunities xs) k = Some v \<longrightarrow>
            market_id v = k \<and> v \<in> {} \<union> set xs
            \<and> (\<forall>y\<in>{} \<union> set xs. market_id y = k \<longrightarrow> expected_value y \<le> expected_value v))
     \<and> (\<forall>y\<in>{} \<union> set xs. map_of (unique_opportunities xs) (market_id y) \<noteq> None)"
    unfolding unique_opportunities_def by (rule foldl_dedup_invariant) simp_all
  from assms obtain k where "(k, v) \<in> set (unique_opportunities xs)" by auto
  with inv have "map_of (unique_opportunities xs) k = Some v" by simp
  with inv show ?thesis by fastforce
qed

lemma unique_opportunities_ids:
  "map market_id (map snd (unique_opportunities xs)) = map fst (unique_opportunities xs)"
proof -
  have inv: "distinct (map fst (unique_opportunities xs))
     \<and> (\<forall>k v. map_of (unique_opportunities xs) k = Some v \<longrightarrow>
            market_id v = k \<and> v \<in> {} \<union> set xs
            \<and> (\<forall>y\<in>{} \<union> set xs. market_id y = k \<longrightarrow> expected_value y \<le> expected_value v))
     \<and> (\<forall>y\<in>{} \<union> set xs. map_of (unique_opportunities xs) (market_id y) \<noteq> None)"
    unfolding unique_opportunities_def by (rule foldl_dedup_invariant) simp_all
  have "market_id (snd p) = fst p" if "p \<in> set (unique_opportunities xs)" for p
  proof -
    from that inv have "map_of (unique_opportunities xs) (fst p) = Some (snd p)" by simp
    with inv show ?thesis by blast
  qed
  then show ?thesis by simp
qed

lemma analyze_with_llm_failure:
  assumes "call_with_retry call 2 = None
     \<or> (\<exists>r. call_with_retry call 2 = Some r
            \<and> (loads r = None
               \<or> (\<exists>res. loads r = Some res
                      \<and> dict_get (llm_confidence res) 0 < llm_confidence_threshold cfg)))"
  shows "analyze_with_llm cfg call loads mkt prices outcomes h v = Inr []"
  using assms
  by (auto simp: analyze_with_llm_def parse_llm_response_def)

lemma rules_for_outcome_ok:
  assumes "min_probability cfg \<noteq> 1" and "max_hours_to_expiry cfg \<noteq> 0"
  shows "\<exists>opps. rules_for_outcome cfg mkt price oc h v = Inr opps
     \<and> (\<forall>opp\<in>set opps.
           edge opp = \<bar>predicted_probability opp - current_price opp\<bar>
         \<and> market_id opp = dict_get (conditionId mkt) []
         \<and> volume opp = v \<and> hours_to_expiry opp = Some h)"
  using assms
  by (simp add: rules_for_outcome_def py_bind_def py_truediv_def Let_def
      MarketOpportunity_init_def)

lemma analyze_with_rules_loop_ok:
  assumes "min_probability cfg \<noteq> 1" and "max_hours_to_expiry cfg \<noteq> 0"
  shows "\<exists>opps. analyze_with_rules_loop cfg mkt prices h v i outcomes = Inr opps
     \<and> (\<forall>opp\<in>set opps.
           edge opp = \<bar>predicted_probability opp - current_price opp\<bar>
         \<and> market_id opp = dict_get (conditionId mkt) []
         \<and> volume opp = v \<and> hours_to_expiry opp = Some h)"
proof (induction outcomes arbitrary: i)
  case Nil
  then show ?case by simp
next
  case (Cons oc rest)
  obtain found where found: "rules_for_outcome cfg mkt (prices ! i) oc h v = Inr found"
    and found_ok: "\<forall>opp\<in>set found.
           edge opp = \<bar>predicted_probability opp - current_price opp\<bar>
         \<and> market_id opp = dict_get (conditionId mkt) []
         \<and> volume opp = v \<and> hours_to_expiry opp = Some h"
    using rules_for_outcome_ok [OF assms] by blast
  obtain later where later: "analyze_with_rules_loop cfg mkt prices h v (Suc i) rest = Inr later"
    and later_ok: "\<forall>opp\<in>set later.
           edge opp = \<bar>predicted_probability opp - current_price opp\<bar>
         \<and> market_id opp = dict_get (conditionId mkt) []
         \<and> volume opp = v \<and> hours_to_expiry opp = Some h"
    using Cons.IH by blast
  show ?case
  proof (cases "i \<ge> length prices")
    case True
    with later later_ok show ?thesis by simp
  next
    case False
    with found later have "analyze_with_rules_loop cfg mkt prices h v i (oc # rest)
        = Inr (found @ later)"
      by simp
    with found_ok later_ok show ?thesis by auto
  qed
qed

lemma llm_success_example:
  "analyze_market default_strategy_config True (\<lambda>attempt. if attempt < 2 then None else Some ''{...}'')
      (\<lambda>r. Some \<lparr>has_opportunity = Some True, llm_confidence = Some (9 / 10),
                        recommended_outcome = Some ''Yes'', expected_probability = Some (99 / 100),
                        llm_reasoning = Some ''settled'', risk_factors = Some []\<rparr>)
      \<lparr>conditionId = Some ''m1'', m_question = Some ''q'', end_hours = Some 10,
        m_volume = Some 20000, m_prices = [97 / 100, 3 / 100],
        m_outcomes = [''Yes'', ''No'']\<rparr>
    = Inr [MarketOpportunity_init ''m1'' ''q'' ''YES'' (97 / 100) (99 / 100) (9 / 10) (200 / 97)
             [SigLLMAnalysis (9 / 10), SigHoursToExpiry 10, SigCurrentPrice (97 / 100),
              SigExpectedProbability (99 / 100), SigExpectedReturn (200 / 97), SigReasoning ''settled'']
             ((1 / 100 + 5 / 24 + 2 / 10 + 1 / 10) / 4) 20000 (Some 10)]"
  by (simp add: analyze_market_def analyze_with_llm_def parse_llm_response_def default_strategy_config_def dict_get_def call_with_retry_def numeral_2_eq_2
      numeral_3_eq_3 analyze_with_rules_def rules_for_outcome_def py_bind_def py_truediv_def
      upper_def upper_char_def MarketOpportunity_init_def Let_def)

lemma rejection_reasons_reported:
  assumes ev: "evaluate_opportunity cfg today rm d = Inr (ev, rm')"
    and rej: "\<not> should_trade ev"
  shows "(final_confidence ev < MIN_CONFIDENCE_THRESHOLD cfg \<longrightarrow>
            ReasonInsufficientConfidence (final_confidence ev) (MIN_CONFIDENCE_THRESHOLD cfg)
              \<in> set (reasoning ev))
     \<and> (dict_get (d_expected_value d) 0 \<le> 5 \<longrightarrow>
            ReasonExpectedValueTooSmall (dict_get (d_expected_value d) 0) \<in> set (reasoning ev))
     \<and> (\<not> ev_risk_score ev < 1 / 2 \<longrightarrow>
            ReasonRiskScoreTooHigh (ev_risk_score ev) \<in> set (reasoning ev))
     \<and> (\<not> (daily_trades rm' < MAX_DAILY_TRADES cfg \<and> open_positions rm' < MAX_OPEN_POSITIONS cfg)
            \<longrightarrow> ReasonTradeLimitReached \<in> set (reasoning ev))
     \<and> (reasoning ev = [] \<longrightarrow> position_size ev \<le> 0)"
proof -
  let ?rs = "calculate_risk_score (Some (dict_get (d_volume d) 0)) (d_hours_to_expiry d)
                   (Some (dict_get (d_edge d) 0))"
  let ?fc = "dict_get (d_confidence d) 0 * (1 - ?rs)"
  from evaluate_opportunity_result [of cfg d today rm] ev
  obtain ps st where st: "st \<longleftrightarrow> ?fc \<ge> MIN_CONFIDENCE_THRESHOLD cfg \<and> ps > 0
                    \<and> dict_get (d_expected_value d) 0 > 5 \<and> ?rs < 1 / 2
                    \<and> daily_trades (reset_daily_counter today rm) < MAX_DAILY_TRADES cfg
                    \<and> open_positions (reset_daily_counter today rm) < MAX_OPEN_POSITIONS cfg"
    and ev_eq: "ev = \<lparr>should_trade = st, position_size = ps, final_confidence = ?fc,
                     ev_risk_score = ?rs,
                     reasoning = fst (generate_reasoning cfg today rm d st ?fc ?rs)\<rparr>"
    and rm'_eq: "rm' = reset_daily_counter today rm"
    by auto
  from rej ev_eq have nst: "\<not> st" by simp
  have risk: "?rs > 1 / 2" if "\<not> ?rs < 1 / 2"
    using that calculate_risk_score_values [of "Some (dict_get (d_volume d) 0)"
        "d_hours_to_expiry d" "Some (dict_get (d_edge d) 0)"]
    by auto
  have rs: "reasoning ev = fst (generate_reasoning cfg today rm d False ?fc ?rs)"
    using ev_eq nst by simp
  show ?thesis
    unfolding rs generate_reasoning_rejecting
    using st nst risk
    by (auto simp: ev_eq rm'_eq reset_daily_counter_open_positions)
qed

section \<open>The opportunity's edge\<close>

text \<open>
  C1. The constructor stores \<open>edge\<close> as the absolute difference of the predicted
  probability and the current price it was given, and \<^verbatim>\<open>to_dict\<close> hands on that same value.
  The source assigns \<open>edge\<close> in the constructor only and never assigns a field of a
  constructed opportunity, so an opportunity is a value here: what holds after construction
  holds from then on. The aggregation returns opportunities of its input, unchanged.
\<close>

theorem edge_is_derived:
  "edge (MarketOpportunity_init mid q oc cp pp conf ev sigs rs vol h) = \<bar>pp - cp\<bar>
   \<and> predicted_probability (MarketOpportunity_init mid q oc cp pp conf ev sigs rs vol h) = pp
   \<and> current_price (MarketOpportunity_init mid q oc cp pp conf ev sigs rs vol h) = cp
   \<and> d_edge (to_dict (MarketOpportunity_init mid q oc cp pp conf ev sigs rs vol h))
       = Some \<bar>pp - cp\<bar>
   \<and> set (rank_opportunities xs) \<subseteq> set xs"
proof -
  have "set (rank_opportunities xs) \<subseteq> set xs"
    using unique_opportunities_kept [of _ xs] by (auto simp: rank_opportunities_def)
  then show ?thesis
    by (simp add: MarketOpportunity_init_def to_dict_def)
qed

section \<open>Kelly sizing\<close>

text \<open>
  C3. \<^verbatim>\<open>calculate_kelly_size\<close> always returns a value, never the division error: 0 when the
  price is at least 1, and otherwise the smaller of \<open>edge / (1 - price) * factor * max_position\<close>
  and the risk limit, floored and clamped below at 0. The result is never negative, and
  it is at most the risk limit whenever the risk limit is not negative.
\<close>

theorem kelly_position_size:
  "calculate_kelly_size e p m r c =
     Inr (if 1 \<le> p then 0 else max 0 \<lfloor>min (e / (1 - p) * c * m) r\<rfloor>)
   \<and> (\<exists>n. calculate_kelly_size e p m r c = Inr n \<and> 0 \<le> n
          \<and> (0 \<le> r \<longrightarrow> real_of_int n \<le> r))"
proof -
  have bound: "real_of_int (max 0 \<lfloor>min x r\<rfloor>) \<le> r" if "0 \<le> r" for x
  proof -
    have "real_of_int \<lfloor>min x r\<rfloor> \<le> min x r" by (rule of_int_floor_le)
    also have "\<dots> \<le> r" by simp
    finally show ?thesis using that by (simp add: max_def)
  qed
  show ?thesis
    using bound [of "e / (1 - p) * c * m"]
    by (simp add: calculate_kelly_size_value)
qed

theorem kelly_position_size_witness:
  "calculate_kelly_size (1 / 5) (1 / 10) 100 50 (1 / 4) = Inr 5
   \<and> calculate_kelly_size (1 / 5) 1 100 50 (1 / 4) = Inr 0
   \<and> (\<exists>n. calculate_kelly_size (1 / 5) (1 / 10) 100 50 (1 / 4) = Inr n \<and> 0 \<le> n
          \<and> ((0::real) \<le> 50 \<and> real_of_int n \<le> 50))"
  using kelly_position_size [of "1 / 5" "1 / 10" 100 50 "1 / 4"]
        kelly_position_size [of "1 / 5" 1 100 50 "1 / 4"]
  by simp

section \<open>Risk score\<close>

text \<open>
  C4. The score lies between 0 and 1 and does not fall when the volume or the edge falls
  (\<open>calculate_risk_score_range\<close>, \<open>calculate_risk_score_mono_volume\<close>,
  \<open>calculate_risk_score_mono_edge\<close>), nor when the hours to expiry fall to a value other
  than zero (\<open>calculate_risk_score_mono_hours\<close>). At exactly zero hours the time penalty
  is dropped: with the volume and the edge fixed, one hour to expiry scores 0.3 and zero
  hours scores 0, so bringing the expiry nearer lowers the score.
\<close>

theorem risk_score_drops_at_zero_hours:
  "calculate_risk_score (Some 100000) (Some 1) (Some (1 / 5)) = 3 / 10
   \<and> calculate_risk_score (Some 100000) (Some 0) (Some (1 / 5)) = 0
   \<and> calculate_risk_score (Some 100000) (Some (- 1)) (Some (1 / 5)) = 3 / 10"
  by (simp add: calculate_risk_score_def safe_float_def)

section \<open>The trade decision\<close>

text \<open>
  C2. An evaluation always returns. Its risk score is \<^verbatim>\<open>calculate_risk_score\<close> of the
  opportunity's volume, hours to expiry and edge, its final confidence is the opportunity's
  confidence times one minus that score, its position size is the Kelly size, and it says to
  trade exactly when the final confidence reaches the threshold, the size is positive, the
  expected value exceeds 5, the risk score is below 0.5, and both counters of the manager
  as the call leaves it (after the daily reset) are below their limits.
\<close>

theorem should_trade_decision:
  "\<exists>ev rm'. evaluate_opportunity cfg today rm d = Inr (ev, rm')
     \<and> rm' = reset_daily_counter today rm
     \<and> ev_risk_score ev = calculate_risk_score (Some (dict_get (d_volume d) 0))
                             (d_hours_to_expiry d) (Some (dict_get (d_edge d) 0))
     \<and> final_confidence ev = dict_get (d_confidence d) 0 * (1 - ev_risk_score ev)
     \<and> calculate_position_size cfg (dict_get (d_edge d) 0)
           (dict_get (d_current_price d) (1 / 2)) = Inr (position_size ev)
     \<and> (should_trade ev \<longleftrightarrow>
            final_confidence ev \<ge> MIN_CONFIDENCE_THRESHOLD cfg
          \<and> position_size ev > 0
          \<and> dict_get (d_expected_value d) 0 > 5
          \<and> ev_risk_score ev < 1 / 2
          \<and> daily_trades rm' < MAX_DAILY_TRADES cfg
          \<and> open_positions rm' < MAX_OPEN_POSITIONS cfg)"
  using evaluate_opportunity_result [of cfg d today rm] by force

section \<open>The daily reset\<close>

text \<open>
  C6. An evaluation never moves the reset date back and leaves the open positions alone.
  When the reset date is before today, the manager comes out with a daily count of 0 and
  the reset date today, and the daily limit is checked against that 0. When the reset
  date is today or later, the evaluation returns the manager as it was, daily count
  included: the reset happens once per day. In particular a second evaluation on the same
  day, of any opportunity, returns the manager unchanged.
\<close>

theorem daily_reset:
  "\<exists>ev rm'. evaluate_opportunity cfg today rm d = Inr (ev, rm')
     \<and> last_reset rm \<le> last_reset rm'
     \<and> open_positions rm' = open_positions rm
     \<and> (last_reset rm < today \<longrightarrow>
           daily_trades rm' = 0 \<and> last_reset rm' = today
         \<and> (should_trade ev \<longleftrightarrow>
                final_confidence ev \<ge> MIN_CONFIDENCE_THRESHOLD cfg
              \<and> position_size ev > 0
              \<and> dict_get (d_expected_value d) 0 > 5
              \<and> ev_risk_score ev < 1 / 2
              \<and> 0 < MAX_DAILY_TRADES cfg
              \<and> open_positions rm < MAX_OPEN_POSITIONS cfg))
     \<and> (today \<le> last_reset rm \<longrightarrow>
           rm' = rm
         \<and> (should_trade ev \<longleftrightarrow>
                final_confidence ev \<ge> MIN_CONFIDENCE_THRESHOLD cfg
              \<and> position_size ev > 0
              \<and> dict_get (d_expected_value d) 0 > 5
              \<and> ev_risk_score ev < 1 / 2
              \<and> daily_trades rm < MAX_DAILY_TRADES cfg
              \<and> open_positions rm < MAX_OPEN_POSITIONS cfg))
     \<and> (\<forall>d2. \<exists>ev2. evaluate_opportunity cfg today rm' d2 = Inr (ev2, rm'))"
proof -
  obtain ev rm' where e: "evaluate_opportunity cfg today rm d = Inr (ev, rm')"
    and rm': "rm' = reset_daily_counter today rm"
    and st: "should_trade ev \<longleftrightarrow>
            final_confidence ev \<ge> MIN_CONFIDENCE_THRESHOLD cfg
          \<and> position_size ev > 0
          \<and> dict_get (d_expected_value d) 0 > 5
          \<and> ev_risk_score ev < 1 / 2
          \<and> daily_trades rm' < MAX_DAILY_TRADES cfg
          \<and> open_positions rm' < MAX_OPEN_POSITIONS cfg"
    using evaluate_opportunity_result [of cfg d today rm] by force
  have mono: "last_reset rm \<le> last_reset rm'"
    by (simp add: rm' reset_daily_counter_def)
  have again: "\<exists>ev2. evaluate_opportunity cfg today rm' d2 = Inr (ev2, rm')" for d2
    using evaluate_opportunity_state [of cfg today rm' d2]
    by (simp add: rm' reset_daily_counter_idem)
  have op: "open_positions rm' = open_positions rm"
    by (simp add: rm' reset_daily_counter_open_positions)
  have roll: "daily_trades rm' = 0 \<and> last_reset rm' = today" if "last_reset rm < today"
    using that by (simp add: rm' reset_daily_counter_def)
  have same: "rm' = rm" if "today \<le> last_reset rm"
    using that by (simp add: rm' reset_daily_counter_stable)
  show ?thesis
    using e mono again roll same st op by auto
qed

theorem daily_reset_witness:
  "(0::int) < 1
   \<and> evaluate_opportunity (default_config\<lparr>MAX_DAILY_TRADES := 5\<rparr>) 1
         \<lparr>daily_trades = 5, last_reset = 0, open_positions = 0\<rparr>
         (to_dict (MarketOpportunity_init ''m1'' ''q'' ''YES'' (1 / 2) (7 / 10) (9 / 10) 20 []
            (1 / 10) 100000 None))
       = Inr (\<lparr>should_trade = True, position_size = 10, final_confidence = 9 / 10,
                ev_risk_score = 0,
                reasoning = [ReasonConfidence (9 / 10), ReasonExpectedValue 20,
                             ReasonPriceAdvantage (1 / 2) (7 / 10)]\<rparr>,
              \<lparr>daily_trades = 0, last_reset = 1, open_positions = 0\<rparr>)
   \<and> (1::int) \<le> 1
   \<and> evaluate_opportunity (default_config\<lparr>MAX_DAILY_TRADES := 5\<rparr>) 1
         \<lparr>daily_trades = 5, last_reset = 1, open_positions = 0\<rparr>
         (to_dict (MarketOpportunity_init ''m1'' ''q'' ''YES'' (1 / 2) (7 / 10) (9 / 10) 20 []
            (1 / 10) 100000 None))
       = Inr (\<lparr>should_trade = False, position_size = 10, final_confidence = 9 / 10,
                ev_risk_score = 0, reasoning = [ReasonTradeLimitReached]\<rparr>,
              \<lparr>daily_trades = 5, last_reset = 1, open_positions = 0\<rparr>)"
  using daily_reset [of "default_config\<lparr>MAX_DAILY_TRADES := 5\<rparr>" 1
      "\<lparr>daily_trades = 5, last_reset = 0, open_positions = 0\<rparr>"
      "to_dict (MarketOpportunity_init ''m1'' ''q'' ''YES'' (1 / 2) (7 / 10) (9 / 10) 20 []
         (1 / 10) 100000 None)"]
    daily_reset [of "default_config\<lparr>MAX_DAILY_TRADES := 5\<rparr>" 1
      "\<lparr>daily_trades = 5, last_reset = 1, open_positions = 0\<rparr>"
      "to_dict (MarketOpportunity_init ''m1'' ''q'' ''YES'' (1 / 2) (7 / 10) (9 / 10) 20 []
         (1 / 10) 100000 None)"]
  by (simp add: evaluate_opportunity_def to_dict_def MarketOpportunity_init_def default_config_def
      calculate_risk_score_def safe_float_def dict_get_def calculate_position_size_def
      calculate_kelly_size_value can_trade_eq reset_daily_counter_def generate_reasoning_def
      Let_def)

section \<open>Counters never go negative\<close>

text \<open>
  C7. After any run of evaluations, recorded trades and closed positions from a fresh
  manager, both counters are at least 0. Recording a trade adds one to each; closing a
  position takes one from the open positions when there is one and changes nothing
  otherwise.
\<close>

theorem counters_never_negative:
  "0 \<le> daily_trades (rm_run cfg start ops) \<and> 0 \<le> open_positions (rm_run cfg start ops)
   \<and> daily_trades (record_trade rm) = daily_trades rm + 1
   \<and> open_positions (record_trade rm) = open_positions rm + 1
   \<and> daily_trades (close_position rm) = daily_trades rm
   \<and> open_positions (close_position rm)
       = (if open_positions rm > 0 then open_positions rm - 1 else open_positions rm)"
  using foldl_rm_step_nonneg [of "RiskManager_init start" cfg ops]
  by (simp add: rm_run_def RiskManager_init_def record_trade_def close_position_def)

section \<open>The rationale of a rejection\<close>

text \<open>
  C8. A rejection whose only failed condition is the position size has an empty rationale:
  \<^verbatim>\<open>_generate_reasoning\<close> has no branch for a size of 0. Under the default configuration an
  opportunity priced at 1.0 is sized 0 and rejected with no reason given; so is an ordinary
  opportunity when the maximal position is 10. Every other failed condition is named in
  the rationale (\<open>rejection_reasons_reported\<close>), the insufficient confidence among them.
\<close>

theorem rejection_without_reason:
  "evaluate_opportunity default_config 1 (RiskManager_init 1)
     (to_dict (MarketOpportunity_init ''m1'' ''q'' ''YES'' 1 (4 / 5) (9 / 10) 20 []
        (1 / 10) 100000 None))
   = Inr (\<lparr>should_trade = False, position_size = 0, final_confidence = 9 / 10,
            ev_risk_score = 0, reasoning = []\<rparr>, RiskManager_init 1)
   \<and> evaluate_opportunity (default_config\<lparr>MAX_POSITION_SIZE := 10\<rparr>) 1 (RiskManager_init 1)
     (to_dict (MarketOpportunity_init ''m1'' ''q'' ''YES'' (1 / 2) (13 / 20) (9 / 10) 20 []
        (1 / 10) 100000 None))
   = Inr (\<lparr>should_trade = False, position_size = 0, final_confidence = 9 / 10,
            ev_risk_score = 0, reasoning = []\<rparr>, RiskManager_init 1)"
  by (simp add: evaluate_opportunity_def to_dict_def MarketOpportunity_init_def default_config_def
      calculate_risk_score_def safe_float_def dict_get_def calculate_position_size_def
      calculate_kelly_size_value can_trade_eq reset_daily_counter_def generate_reasoning_def
      Let_def RiskManager_init_def)

section \<open>Evaluation does not count trades\<close>

text \<open>
  C10. An evaluation returns the manager after the daily reset and nothing else: the open
  positions are unchanged, the daily count does not grow (it is non-negative in every
  reachable state), and without a date rollover the manager is unchanged. Over the
  decision loop, which calls \<^verbatim>\<open>record_trade\<close> once per trade that
  \<^verbatim>\<open>execute_trade\<close> reports as successful, both counters grow by exactly the number of
  executed trades.
\<close>

theorem evaluate_does_not_count:
  "(\<exists>ev. evaluate_opportunity cfg today rm d = Inr (ev, reset_daily_counter today rm))
   \<and> open_positions (reset_daily_counter today rm) = open_positions rm
   \<and> (0 \<le> daily_trades rm \<longrightarrow> daily_trades (reset_daily_counter today rm) \<le> daily_trades rm)
   \<and> (today \<le> last_reset rm \<longrightarrow> reset_daily_counter today rm = rm)
   \<and> (last_reset rm < today \<longrightarrow>
         reset_daily_counter today rm = rm\<lparr>daily_trades := 0, last_reset := today\<rparr>)
   \<and> (evaluate_and_execute cfg today rm opps = Inr (n, rm') \<longrightarrow>
         open_positions rm' = open_positions rm + int n
       \<and> daily_trades rm' =
           daily_trades (if take 10 opps = [] then rm else reset_daily_counter today rm) + int n)"
  using evaluate_opportunity_state [of cfg today rm d]
    evaluate_and_execute_loop_counts [of cfg today 0 rm "take 10 opps" n rm']
  by (auto simp: reset_daily_counter_def evaluate_and_execute_def)

theorem evaluate_does_not_count_witness:
  "(\<exists>ev. evaluate_opportunity default_config 1
            \<lparr>daily_trades = 5, last_reset = 0, open_positions = 2\<rparr>
            (to_dict (MarketOpportunity_init ''m1'' ''q'' ''YES'' (1 / 2) (7 / 10) (9 / 10) 20 []
               (1 / 10) 100000 None))
          = Inr (ev, \<lparr>daily_trades = 0, last_reset = 1, open_positions = 2\<rparr>)
        \<and> should_trade ev)
   \<and> (\<exists>ev. evaluate_opportunity default_config 1
            \<lparr>daily_trades = 5, last_reset = 1, open_positions = 2\<rparr>
            (to_dict (MarketOpportunity_init ''m1'' ''q'' ''YES'' (1 / 2) (7 / 10) (9 / 10) 20 []
               (1 / 10) 100000 None))
          = Inr (ev, \<lparr>daily_trades = 5, last_reset = 1, open_positions = 2\<rparr>)
        \<and> should_trade ev)
   \<and> evaluate_and_execute default_config 1
         \<lparr>daily_trades = 5, last_reset = 0, open_positions = 2\<rparr>
         [MarketOpportunity_init ''m1'' ''q'' ''YES'' (1 / 2) (7 / 10) (9 / 10) 20 []
            (1 / 10) 100000 None]
       = Inr (1, \<lparr>daily_trades = 1, last_reset = 1, open_positions = 3\<rparr>)
   \<and> evaluate_and_execute (default_config\<lparr>MOCK_TRADING := False\<rparr>) 1
         \<lparr>daily_trades = 5, last_reset = 0, open_positions = 2\<rparr>
         [MarketOpportunity_init ''m1'' ''q'' ''YES'' (1 / 2) (7 / 10) (9 / 10) 20 []
            (1 / 10) 100000 None]
       = Inr (0, \<lparr>daily_trades = 0, last_reset = 1, open_positions = 2\<rparr>)"
  using evaluate_does_not_count [of default_config 1
      "\<lparr>daily_trades = 5, last_reset = 0, open_positions = 2\<rparr>"
      "to_dict (MarketOpportunity_init ''m1'' ''q'' ''YES'' (1 / 2) (7 / 10) (9 / 10) 20 []
         (1 / 10) 100000 None)"
      "[MarketOpportunity_init ''m1'' ''q'' ''YES'' (1 / 2) (7 / 10) (9 / 10) 20 []
         (1 / 10) 100000 None]" 1
      "\<lparr>daily_trades = 1, last_reset = 1, open_positions = 3\<rparr>"]
    evaluate_does_not_count [of default_config 1
      "\<lparr>daily_trades = 5, last_reset = 1, open_positions = 2\<rparr>"
      "to_dict (MarketOpportunity_init ''m1'' ''q'' ''YES'' (1 / 2) (7 / 10) (9 / 10) 20 []
         (1 / 10) 100000 None)" "[]" 0
      "\<lparr>daily_trades = 5, last_reset = 1, open_positions = 2\<rparr>"]
  by (simp add: evaluate_and_execute_def execute_trade_def py_truediv_def record_trade_def
      evaluate_opportunity_def to_dict_def MarketOpportunity_init_def default_config_def
      calculate_risk_score_def safe_float_def dict_get_def calculate_position_size_def
      calculate_kelly_size_value can_trade_eq reset_daily_counter_def generate_reasoning_def
      Let_def)

section \<open>Aggregation\<close>

text \<open>
  C5. The ranked list holds one opportunity per market id of the input; each is an
  opportunity of the input whose expected value is maximal among the input's opportunities
  with the same market id; the list is sorted by expected value, highest first. Before
  sorting the survivors stand in the order in which their market ids first occurred in
  the input (the insertion order of the dictionary), and sorting keeps that order among
  survivors of equal expected value.
\<close>

theorem aggregation_dedup_and_rank:
  "distinct (map market_id (rank_opportunities xs))
   \<and> set (map market_id (rank_opportunities xs)) = set (map market_id xs)
   \<and> (\<forall>v\<in>set (rank_opportunities xs).
          v \<in> set xs
        \<and> (\<forall>y\<in>set xs. market_id y = market_id v \<longrightarrow> expected_value y \<le> expected_value v))
   \<and> sorted_wrt (\<lambda>a b. expected_value a \<ge> expected_value b) (rank_opportunities xs)
   \<and> map market_id (map snd (unique_opportunities xs)) = rev (remdups (rev (map market_id xs)))
   \<and> (\<forall>e. filter (\<lambda>v. expected_value v = e) (rank_opportunities xs)
            = filter (\<lambda>v. expected_value v = e) (map snd (unique_opportunities xs)))"
proof -
  let ?u = "map snd (unique_opportunities xs)"
  have ids: "map market_id ?u = rev (remdups (rev (map market_id xs)))"
    by (simp only: unique_opportunities_ids unique_opportunities_keys)
  have dist_ids: "distinct (map market_id ?u)" and set_ids: "set (map market_id ?u) = set (map market_id xs)"
    by (simp_all only: ids distinct_rev distinct_remdups set_rev set_remdups)
  have c1: "distinct (map market_id (rank_opportunities xs))"
    using dist_ids by (simp only: rank_opportunities_def distinct_map_sort_key)
  have c2: "set (map market_id (rank_opportunities xs)) = set (map market_id xs)"
    using set_ids by (simp only: rank_opportunities_def set_map_sort_key)
  have c3: "\<forall>v\<in>set (rank_opportunities xs).
          v \<in> set xs
        \<and> (\<forall>y\<in>set xs. market_id y = market_id v \<longrightarrow> expected_value y \<le> expected_value v)"
    using unique_opportunities_kept [of _ xs] by (simp add: rank_opportunities_def)
  have "sorted (map (\<lambda>x. - expected_value x) (rank_opportunities xs))"
    unfolding rank_opportunities_def by (rule sorted_sort_key)
  then have c4: "sorted_wrt (\<lambda>a b. expected_value a \<ge> expected_value b) (rank_opportunities xs)"
    by (simp add: sorted_wrt_map)
  have c6: "filter (\<lambda>v. expected_value v = e) (rank_opportunities xs)
            = filter (\<lambda>v. expected_value v = e) ?u" for e
    using sort_key_stable [of "\<lambda>x. - expected_value x" "- e" ?u]
    by (simp add: rank_opportunities_def)
  show ?thesis using c1 c2 c3 c4 ids c6 by (intro conjI allI) assumption+
qed


theorem aggregation_dedup_and_rank_witness:
  "rank_opportunities
     [MarketOpportunity_init ''m1'' ''q1'' ''YES'' (1 / 2) (7 / 10) (9 / 10) 10 [] 0 0 None,
      MarketOpportunity_init ''m2'' ''q2'' ''YES'' (1 / 2) (7 / 10) (9 / 10) 25 [] 0 0 None,
      MarketOpportunity_init ''m1'' ''q1'' ''NO'' (1 / 2) (7 / 10) (9 / 10) 25 [] 0 0 None]
   = [MarketOpportunity_init ''m1'' ''q1'' ''NO'' (1 / 2) (7 / 10) (9 / 10) 25 [] 0 0 None,
      MarketOpportunity_init ''m2'' ''q2'' ''YES'' (1 / 2) (7 / 10) (9 / 10) 25 [] 0 0 None]
   \<and> map market_id (rank_opportunities
     [MarketOpportunity_init ''m1'' ''q1'' ''YES'' (1 / 2) (7 / 10) (9 / 10) 10 [] 0 0 None,
      MarketOpportunity_init ''m2'' ''q2'' ''YES'' (1 / 2) (7 / 10) (9 / 10) 25 [] 0 0 None,
      MarketOpportunity_init ''m1'' ''q1'' ''NO'' (1 / 2) (7 / 10) (9 / 10) 25 [] 0 0 None])
     = [''m1'', ''m2'']"
  using aggregation_dedup_and_rank [of
     "[MarketOpportunity_init ''m1'' ''q1'' ''YES'' (1 / 2) (7 / 10) (9 / 10) 10 [] 0 0 None,
      MarketOpportunity_init ''m2'' ''q2'' ''YES'' (1 / 2) (7 / 10) (9 / 10) 25 [] 0 0 None,
      MarketOpportunity_init ''m1'' ''q1'' ''NO'' (1 / 2) (7 / 10) (9 / 10) 25 [] 0 0 None]"]
  by (simp add: rank_opportunities_def unique_opportunities_def dedup_step_def
      MarketOpportunity_init_def)

section \<open>Fallback of the model-assisted expiring-market strategy\<close>

text \<open>
  C9, as amended. Take a market that passes the eligibility filter (an expiry inside the
  window, enough volume) and a judgment that fails: no reply after the retries, a reply
  without a JSON object that decodes, or a reported confidence below the floor. Then
  \<^verbatim>\<open>analyze_market\<close> returns exactly what the rule-based analysis returns, whether or not
  the service is enabled. Provided the two divisors of the rules are not zero (the
  configured minimal probability is not 1 and the maximal hours are not 0, as under the
  defaults 0.95 and 48), that is a list of opportunities and no exception: each has its
  edge derived from its prices, the market's id, volume and hours to expiry. Without the
  proviso the claim fails, as the evaluation after the witness shows.
\<close>

theorem llm_failure_falls_back:
  assumes "end_hours mkt = Some h"
    and "\<not> (h > max_hours_to_expiry cfg \<or> h < min_hours_to_expiry cfg)"
    and "\<not> dict_get (m_volume mkt) 0 < min_volume cfg"
    and "call_with_retry call 2 = None
     \<or> (\<exists>r. call_with_retry call 2 = Some r
            \<and> (loads r = None
               \<or> (\<exists>res. loads r = Some res
                      \<and> dict_get (llm_confidence res) 0 < llm_confidence_threshold cfg)))"
  shows "analyze_market cfg llm_enabled call loads mkt
           = analyze_with_rules cfg mkt (m_prices mkt) (m_outcomes mkt) h (dict_get (m_volume mkt) 0)
     \<and> (min_probability cfg \<noteq> 1 \<and> max_hours_to_expiry cfg \<noteq> 0 \<longrightarrow>
          (\<exists>opps. analyze_market cfg llm_enabled call loads mkt = Inr opps
             \<and> (\<forall>opp\<in>set opps.
                   edge opp = \<bar>predicted_probability opp - current_price opp\<bar>
                 \<and> market_id opp = dict_get (conditionId mkt) []
                 \<and> volume opp = dict_get (m_volume mkt) 0
                 \<and> hours_to_expiry opp = Some h)))"
proof -
  have llm: "analyze_with_llm cfg call loads mkt (m_prices mkt) (m_outcomes mkt) h
               (dict_get (m_volume mkt) 0) = Inr []"
    by (rule analyze_with_llm_failure) (rule assms(4))
  have fallback: "analyze_market cfg llm_enabled call loads mkt
           = analyze_with_rules cfg mkt (m_prices mkt) (m_outcomes mkt) h (dict_get (m_volume mkt) 0)"
    using assms(1-3) llm by (simp add: analyze_market_def Let_def py_bind_def)
  show ?thesis
    using fallback analyze_with_rules_loop_ok [of cfg mkt "m_prices mkt" h
        "dict_get (m_volume mkt) 0" 0 "m_outcomes mkt"]
    by (simp add: analyze_with_rules_def)
qed

theorem llm_failure_falls_back_witness:
  "analyze_market default_strategy_config True (\<lambda>attempt. None) (\<lambda>r. None)
      \<lparr>conditionId = Some ''m1'', m_question = Some ''q'', end_hours = Some 10,
        m_volume = Some 20000, m_prices = [97 / 100, 3 / 100],
        m_outcomes = [''Yes'', ''No'']\<rparr>
    = Inr [MarketOpportunity_init ''m1'' ''q'' ''YES'' (97 / 100) (99 / 100) (143 / 240) 3
             [SigRuleBased, SigHoursToExpiry 10, SigCurrentPrice (97 / 100), SigExpectedReturn 3]
             (3 / 100) 20000 (Some 10),
           MarketOpportunity_init ''m1'' ''q'' ''NO'' (97 / 100) (99 / 100) (143 / 240) 3
             [SigRuleBased, SigHoursToExpiry 10, SigNoPrice (97 / 100) (3 / 100),
              SigExpectedReturn 3]
             (3 / 100) 20000 (Some 10)]
   \<and> analyze_market default_strategy_config True (\<lambda>attempt. Some ''no json here'') (\<lambda>r. None)
      \<lparr>conditionId = Some ''m1'', m_question = Some ''q'', end_hours = Some 10,
        m_volume = Some 20000, m_prices = [97 / 100, 3 / 100],
        m_outcomes = [''Yes'', ''No'']\<rparr>
    = Inr [MarketOpportunity_init ''m1'' ''q'' ''YES'' (97 / 100) (99 / 100) (143 / 240) 3
             [SigRuleBased, SigHoursToExpiry 10, SigCurrentPrice (97 / 100), SigExpectedReturn 3]
             (3 / 100) 20000 (Some 10),
           MarketOpportunity_init ''m1'' ''q'' ''NO'' (97 / 100) (99 / 100) (143 / 240) 3
             [SigRuleBased, SigHoursToExpiry 10, SigNoPrice (97 / 100) (3 / 100),
              SigExpectedReturn 3]
             (3 / 100) 20000 (Some 10)]
   \<and> analyze_market default_strategy_config True (\<lambda>attempt. Some ''{...}'')
      (\<lambda>r. Some \<lparr>has_opportunity = Some True, llm_confidence = Some (1 / 2),
                        recommended_outcome = Some ''Yes'', expected_probability = Some (99 / 100),
                        llm_reasoning = None, risk_factors = None\<rparr>)
      \<lparr>conditionId = Some ''m1'', m_question = Some ''q'', end_hours = Some 10,
        m_volume = Some 20000, m_prices = [97 / 100, 3 / 100],
        m_outcomes = [''Yes'', ''No'']\<rparr>
    = Inr [MarketOpportunity_init ''m1'' ''q'' ''YES'' (97 / 100) (99 / 100) (143 / 240) 3
             [SigRuleBased, SigHoursToExpiry 10, SigCurrentPrice (97 / 100), SigExpectedReturn 3]
             (3 / 100) 20000 (Some 10),
           MarketOpportunity_init ''m1'' ''q'' ''NO'' (97 / 100) (99 / 100) (143 / 240) 3
             [SigRuleBased, SigHoursToExpiry 10, SigNoPrice (97 / 100) (3 / 100),
              SigExpectedReturn 3]
             (3 / 100) 20000 (Some 10)]"
  using llm_failure_falls_back [of "\<lparr>conditionId = Some ''m1'', m_question = Some ''q'', end_hours = Some 10,
        m_volume = Some 20000, m_prices = [97 / 100, 3 / 100],
        m_outcomes = [''Yes'', ''No'']\<rparr>" 10 default_strategy_config "\<lambda>attempt. None" "\<lambda>r. None" True]
    llm_failure_falls_back [of "\<lparr>conditionId = Some ''m1'', m_question = Some ''q'', end_hours = Some 10,
        m_volume = Some 20000, m_prices = [97 / 100, 3 / 100],
        m_outcomes = [''Yes'', ''No'']\<rparr>" 10 default_strategy_config "\<lambda>attempt. Some ''no json here''"
      "\<lambda>r. None" True]
    llm_failure_falls_back [of "\<lparr>conditionId = Some ''m1'', m_question = Some ''q'', end_hours = Some 10,
        m_volume = Some 20000, m_prices = [97 / 100, 3 / 100],
        m_outcomes = [''Yes'', ''No'']\<rparr>" 10 default_strategy_config "\<lambda>attempt. Some ''{...}''"
      "(\<lambda>r. Some \<lparr>has_opportunity = Some True, llm_confidence = Some (1 / 2),
                        recommended_outcome = Some ''Yes'', expected_probability = Some (99 / 100),
                        llm_reasoning = None, risk_factors = None\<rparr>)" True]
  by (simp add: default_strategy_config_def dict_get_def call_with_retry_def numeral_2_eq_2
      numeral_3_eq_3 analyze_with_rules_def rules_for_outcome_def py_bind_def py_truediv_def
      upper_def upper_char_def MarketOpportunity_init_def Let_def)

text \<open>
  With the minimal probability configured as 1, an eligible market priced at 1 and a
  judgment that times out, the fallback divides by \<open>1 - min_probability\<close> and
  \<^verbatim>\<open>analyze_market\<close> raises; with the maximal hours configured as 0 (and a window that
  admits 0 hours) it divides by the maximal hours and raises as well.
\<close>

theorem llm_fallback_raises_counterexample:
  "end_hours \<lparr>conditionId = Some ''m1'', m_question = Some ''q'', end_hours = Some 10,
       m_volume = Some 20000, m_prices = [1, 0], m_outcomes = [''Yes'', ''No'']\<rparr> = Some 10
   \<and> \<not> (10 > max_hours_to_expiry (default_strategy_config\<lparr>min_probability := 1\<rparr>)
        \<or> 10 < min_hours_to_expiry (default_strategy_config\<lparr>min_probability := 1\<rparr>))
   \<and> \<not> dict_get (m_volume \<lparr>conditionId = Some ''m1'', m_question = Some ''q'',
          end_hours = Some 10, m_volume = Some 20000, m_prices = [1, 0],
          m_outcomes = [''Yes'', ''No'']\<rparr>) 0
        < min_volume (default_strategy_config\<lparr>min_probability := 1\<rparr>)
   \<and> call_with_retry (\<lambda>attempt. None) 2 = None
   \<and> analyze_market (default_strategy_config\<lparr>min_probability := 1\<rparr>) True
         (\<lambda>attempt. None) (\<lambda>r. None)
         \<lparr>conditionId = Some ''m1'', m_question = Some ''q'', end_hours = Some 10,
          m_volume = Some 20000, m_prices = [1, 0], m_outcomes = [''Yes'', ''No'']\<rparr>
       = Inl ZeroDivisionError
   \<and> analyze_market
         (default_strategy_config\<lparr>max_hours_to_expiry := 0, min_hours_to_expiry := 0\<rparr>) True
         (\<lambda>attempt. None) (\<lambda>r. None)
         \<lparr>conditionId = Some ''m1'', m_question = Some ''q'', end_hours = Some 0,
          m_volume = Some 20000, m_prices = [97 / 100, 3 / 100],
          m_outcomes = [''Yes'', ''No'']\<rparr>
       = Inl ZeroDivisionError"
  by (simp add: analyze_market_def default_strategy_config_def dict_get_def py_bind_def
      analyze_with_llm_def call_with_retry_def analyze_with_rules_def rules_for_outcome_def
      py_truediv_def numeral_2_eq_2 numeral_3_eq_3)

end
